theory Spec2Isabelle
  imports Main "HOL-Library.Word" "HOL-Library.Sublist" "HOL-Library.Monad_Syntax"
begin

section \<open>JavaScript strings and numbers\<close>

text \<open>
  A JavaScript string is a sequence of UTF-16 code units, and \<^verbatim>\<open>s.length\<close> counts
  code units.  A string is therefore a list of 16-bit words; \<open>js\<close> embeds an ASCII
  literal, and the few non-ASCII characters of the source (the emoji of the log lines
  and of the comment header) are written as their code units.
\<close>

type_synonym jschar = "16 word"
type_synonym jsstring = "jschar list"

definition js :: "string \<Rightarrow> jsstring" where
  "js s = map of_char s"

text \<open>
  The counts of the program (\<^verbatim>\<open>additions\<close>, \<^verbatim>\<open>deletions\<close>, \<^verbatim>\<open>changes\<close>,
  \<^verbatim>\<open>length\<close>, the pull-request number, the HTTP status) are non-negative integers far
  below \<open>2^53\<close>, where JavaScript numbers are exact; they are natural numbers here.
  \<open>toString\<close> is what a template literal does to such a number: its decimal digits,
  most significant first, without leading zeros.
\<close>

fun toString :: "nat \<Rightarrow> jsstring" where
  "toString n =
     (if n < 10 then [of_nat (48 + n)]
      else toString (n div 10) @ [of_nat (48 + n mod 10)])"

declare toString.simps [simp del]

text \<open>The value of a string of decimal digits, to say what \<open>toString\<close> renders.\<close>

definition digitValue :: "jschar \<Rightarrow> nat" where
  "digitValue c = unat c - 48"

definition isDigit :: "jschar \<Rightarrow> bool" where
  "isDigit c = (48 \<le> unat c \<and> unat c \<le> 57)"

definition decimalValue :: "jsstring \<Rightarrow> nat" where
  "decimalValue s = foldl (\<lambda>acc c. 10 * acc + digitValue c) 0 s"

text \<open>
  \<^verbatim>\<open>x || d\<close> on an optional string: \<^verbatim>\<open>undefined\<close>, \<^verbatim>\<open>null\<close> and the empty string
  are falsy.
\<close>

definition truthy :: "jsstring option \<Rightarrow> bool" where
  "truthy x = (case x of None \<Rightarrow> False | Some s \<Rightarrow> s \<noteq> [])"

definition orElse :: "jsstring option \<Rightarrow> jsstring \<Rightarrow> jsstring" where
  "orElse x d = (case x of None \<Rightarrow> d | Some s \<Rightarrow> if s \<noteq> [] then s else d)"

section \<open>Regular expressions\<close>

text \<open>
  The fragment of JavaScript regular expressions that \<^verbatim>\<open>EXCLUDED_FILE_PATTERNS\<close>
  uses: literal characters, sequence, alternation \<^verbatim>\<open>(a|b)\<close> and the end anchor
  \<^verbatim>\<open>$\<close> (no \<^verbatim>\<open>m\<close> flag: end of input only).  \<open>rmatch r s\<close> lists what is left
  of \<open>s\<close> after each way \<open>r\<close> matches a prefix of it; \<^verbatim>\<open>r.test(s)\<close> looks for a
  match starting anywhere in \<open>s\<close> (none of the patterns has the \<^verbatim>\<open>g\<close> or \<^verbatim>\<open>y\<close>
  flag, so \<^verbatim>\<open>test\<close> keeps no state).
\<close>

datatype regex = Empty | Char jschar | Seq regex regex | Alt regex regex | End

fun lit :: "jsstring \<Rightarrow> regex" where
  "lit [] = Empty"
| "lit (c # cs) = Seq (Char c) (lit cs)"

fun rmatch :: "regex \<Rightarrow> jsstring \<Rightarrow> jsstring list" where
  "rmatch Empty s = [s]"
| "rmatch (Char c) s = (case s of [] \<Rightarrow> [] | x # xs \<Rightarrow> if x = c then [xs] else [])"
| "rmatch (Seq a b) s = concat (map (rmatch b) (rmatch a s))"
| "rmatch (Alt a b) s = rmatch a s @ rmatch b s"
| "rmatch End s = (if s = [] then [s] else [])"

definition test :: "regex \<Rightarrow> jsstring \<Rightarrow> bool" where
  "test r s = list_ex (\<lambda>t. rmatch r t \<noteq> []) (suffixes s)"

section \<open>Events of a run\<close>

text \<open>
  What the program does to the outside world, in order of occurrence: the log lines of
  \<^verbatim>\<open>core.info\<close> and \<^verbatim>\<open>core.error\<close>, the failure signal \<^verbatim>\<open>core.setFailed\<close>, and the
  three external calls (list the changed files of a pull request, send an HTTP request
  to the generative-text service, create a comment on a pull request).
\<close>

record Request =
  url :: jsstring
  httpMethod :: jsstring
  contentType :: jsstring
  promptText :: jsstring

datatype event =
    Info jsstring
  | LogError jsstring
  | SetFailed jsstring
  | ListFiles jsstring jsstring nat
  | Fetch Request
  | CreateComment jsstring jsstring nat jsstring

section \<open>The file filter\<close>

text \<open>
  The twelve patterns, in the order of the source:
  \<^verbatim>\<open>/\.lock$/\<close>, \<^verbatim>\<open>/package-lock\.json$/\<close>, \<^verbatim>\<open>/yarn\.lock$/\<close>, \<^verbatim>\<open>/pnpm-lock\.yaml$/\<close>,
  \<^verbatim>\<open>/\.min\.(js|css)$/\<close>, \<^verbatim>\<open>/\.bundle\.(js|css)$/\<close>, \<^verbatim>\<open>/node_modules/\<close>, \<^verbatim>\<open>/\.git/\<close>,
  \<^verbatim>\<open>/\.DS_Store$/\<close>, \<^verbatim>\<open>/\.log$/\<close>, \<^verbatim>\<open>/\.tmp$/\<close>, \<^verbatim>\<open>/\.temp$/\<close>.
\<close>

definition EXCLUDED_FILE_PATTERNS :: "regex list" where
  "EXCLUDED_FILE_PATTERNS =
    [ Seq (lit (js ''.lock'')) End,
      Seq (lit (js ''package-lock.json'')) End,
      Seq (lit (js ''yarn.lock'')) End,
      Seq (lit (js ''pnpm-lock.yaml'')) End,
      Seq (lit (js ''.min.'')) (Seq (Alt (lit (js ''js'')) (lit (js ''css''))) End),
      Seq (lit (js ''.bundle.'')) (Seq (Alt (lit (js ''js'')) (lit (js ''css''))) End),
      lit (js ''node_modules''),
      lit (js ''.git''),
      Seq (lit (js ''.DS_Store'')) End,
      Seq (lit (js ''.log'')) End,
      Seq (lit (js ''.tmp'')) End,
      Seq (lit (js ''.temp'')) End ]"

definition MAX_FILE_SIZE :: nat where
  "MAX_FILE_SIZE = 50000"

text \<open>
  \<open>shouldExcludeFile\<close> returns its decision together with the log line it writes
  (\<^verbatim>\<open>core.info\<close>) on the size branch.
\<close>

definition shouldExcludeFile :: "jsstring \<Rightarrow> jsstring option \<Rightarrow> bool \<times> event list" where
  "shouldExcludeFile filename patch =
     (if list_ex (\<lambda>pattern. test pattern filename) EXCLUDED_FILE_PATTERNS then (True, [])
      else case patch of
        None \<Rightarrow> (False, [])
      | Some p \<Rightarrow>
          if p \<noteq> [] \<and> length p > MAX_FILE_SIZE
          then (True, [Info (js ''Skipping large file: '' @ filename @ js '' ('' @
                             toString (length p) @ js '' characters)'')])
          else (False, []))"

section \<open>The prompt builder\<close>

text \<open>
  \<^verbatim>\<open>FileChange\<close>, as the interface declares it.  The objects that the source-control
  service returns carry more fields than these six; the record is extensible, and
  \<open>createReviewPrompt\<close> accepts any extension.
\<close>

record FileChange =
  filename :: jsstring
  patch :: "jsstring option"
  status :: jsstring
  additions :: nat
  deletions :: nat
  changes :: nat

text \<open>The three template literals of \<^verbatim>\<open>createReviewPrompt\<close>, holes filled in.\<close>

definition promptHeader :: "jsstring option \<Rightarrow> jsstring option \<Rightarrow> nat \<Rightarrow> nat \<Rightarrow> jsstring" where
  "promptHeader prTitle prBody fileCount totalChanges =
     js ''You are an expert code reviewer with extensive experience in software development. Please review the following pull request changes and provide constructive, actionable feedback.\<newline>'' @
     js ''\<newline>'' @
     js ''**Pull Request Context:**\<newline>'' @
     js ''- Title: '' @ orElse prTitle (js ''No title provided'') @ js ''\<newline>'' @
     js ''- Description: '' @ orElse prBody (js ''No description provided'') @ js ''\<newline>'' @
     js ''- Files changed: '' @ toString fileCount @ js ''\<newline>'' @
     js ''- Total changes: '' @ toString totalChanges @ js '' lines\<newline>'' @
     js ''\<newline>'' @
     js ''**Review Guidelines:**\<newline>'' @
     js ''1. Focus on code quality, security, performance, and maintainability\<newline>'' @
     js ''2. Identify potential bugs, edge cases, and improvements\<newline>'' @
     js ''3. Check for proper error handling and validation\<newline>'' @
     js ''4. Ensure code follows best practices and conventions\<newline>'' @
     js ''5. Suggest specific improvements with clear explanations\<newline>'' @
     js ''6. Be constructive and professional in your feedback\<newline>'' @
     js ''\<newline>'' @
     js ''**Code Changes to Review:**\<newline>'' @
     js ''\<newline>''"

text \<open>
  The per-file template.  It is only instantiated under \<^verbatim>\<open>if (file.patch)\<close>; an absent
  patch would render as \<^verbatim>\<open>undefined\<close>.
\<close>

definition fileBlock :: "nat \<Rightarrow> 'a FileChange_scheme \<Rightarrow> jsstring" where
  "fileBlock index file =
     js ''**File '' @ toString (index + 1) @ js '': '' @ filename file @
     js ''** ('' @ status file @ js '', +'' @ toString (additions file) @
     js ''/-'' @ toString (deletions file) @ js '')\<newline>'' @
     js ''```diff\<newline>'' @
     (case patch file of None \<Rightarrow> js ''undefined'' | Some p \<Rightarrow> p) @ js ''\<newline>'' @
     js ''```\<newline>'' @
     js ''\<newline>''"

definition promptClosing :: jsstring where
  "promptClosing =
     js ''Please provide a comprehensive review covering:\<newline>'' @
     js ''- Overall assessment of the changes\<newline>'' @
     js ''- Specific issues or concerns\<newline>'' @
     js ''- Suggestions for improvement\<newline>'' @
     js ''- Security considerations (if any)\<newline>'' @
     js ''- Performance implications (if any)\<newline>'' @
     js ''\<newline>'' @
     js ''Format your response in a clear, structured way that will be helpful for the developer.''"

text \<open>
  \<^verbatim>\<open>files.forEach((file, index) => { if (file.patch) { prompt += ... } })\<close>: the loop
  over the files, with the running index and the prompt built so far.
\<close>

fun forEachFile :: "nat \<Rightarrow> 'a FileChange_scheme list \<Rightarrow> jsstring \<Rightarrow> jsstring" where
  "forEachFile index [] prompt = prompt"
| "forEachFile index (file # rest) prompt =
     forEachFile (index + 1) rest
       (if truthy (patch file) then prompt @ fileBlock index file else prompt)"

definition createReviewPrompt ::
  "'a FileChange_scheme list \<Rightarrow> jsstring option \<Rightarrow> jsstring option \<Rightarrow> jsstring" where
  "createReviewPrompt files prTitle prBody =
     (let fileCount = length files;
          totalChanges = foldl (\<lambda>sum file. sum + changes file) 0 files;
          prompt0 = promptHeader prTitle prBody fileCount totalChanges;
          prompt1 = forEachFile 0 files prompt0;
          prompt2 = prompt1 @ promptClosing
      in prompt2)"

text \<open>
  The per-file blocks as the specification words them: one block for each file with a
  non-empty patch, in the order of the list, numbered by the file's position in it.
\<close>

definition reviewedBlocks :: "'a FileChange_scheme list \<Rightarrow> jsstring list" where
  "reviewedBlocks files =
     map (\<lambda>(index, file). fileBlock index file)
         (filter (\<lambda>(index, file). truthy (patch file)) (zip [0..<length files] files))"

section \<open>The model client\<close>

text \<open>
  A thrown value: an \<^verbatim>\<open>Error\<close> object with its message, or anything else
  (\<^verbatim>\<open>getGeminiReview\<close> tells the two apart with \<^verbatim>\<open>instanceof Error\<close>).
\<close>

datatype exn = Error jsstring | NonError

text \<open>
  \<^verbatim>\<open>GeminiResponse\<close>, as the interface declares it: every level is optional.  The field
  \<^verbatim>\<open>text\<close> of a part is \<open>partText\<close> here.
\<close>

record GeminiPart =
  partText :: "jsstring option"

record GeminiContent =
  parts :: "GeminiPart list option"

record GeminiCandidate =
  content :: "GeminiContent option"

record GeminiError =
  message :: "jsstring option"

record GeminiResponse =
  candidates :: "GeminiCandidate list option"
  error :: "GeminiError option"

text \<open>
  The HTTP response of \<^verbatim>\<open>fetch\<close>: the status line, and what \<^verbatim>\<open>response.text()\<close> and
  \<^verbatim>\<open>response.json()\<close> give, each of which may throw instead.  \<^verbatim>\<open>response.ok\<close> is the
  library's getter: the status is in the range 200 to 299.
\<close>

record Response =
  httpStatus :: nat
  statusText :: jsstring
  bodyText :: "exn + jsstring"
  bodyJson :: "exn + GeminiResponse"

definition ok :: "Response \<Rightarrow> bool" where
  "ok response = (200 \<le> httpStatus response \<and> httpStatus response < 300)"

text \<open>\<^verbatim>\<open>xs?.[0]\<close> on an array: \<^verbatim>\<open>undefined\<close> when the array is empty.\<close>

definition index0 :: "'a list \<Rightarrow> 'a option" where
  "index0 xs = (case xs of [] \<Rightarrow> None | x # _ \<Rightarrow> Some x)"

text \<open>\<^verbatim>\<open>data?.candidates?.[0]?.content?.parts?.[0]?.text\<close>\<close>

definition firstCandidateText :: "GeminiResponse \<Rightarrow> jsstring option" where
  "firstCandidateText data =
     candidates data \<bind> index0 \<bind> content \<bind> parts \<bind> index0 \<bind> partText"

text \<open>
  The request that \<^verbatim>\<open>getGeminiReview\<close> sends.  Its JSON body holds the prompt as
  \<^verbatim>\<open>contents[0].parts[0].text\<close> and the fixed \<^verbatim>\<open>generationConfig\<close> (temperature 0.3,
  topK 40, topP 0.95, maxOutputTokens 2048).
\<close>

definition geminiRequest :: "jsstring \<Rightarrow> jsstring \<Rightarrow> Request" where
  "geminiRequest prompt apiKey =
     \<lparr>url = js ''https://generativelanguage.googleapis.com/v1beta/models/gemini-1.5-flash:generateContent?key='' @ apiKey,
      httpMethod = js ''POST'',
      contentType = js ''application/json'',
      promptText = prompt\<rparr>"

text \<open>The body of the \<^verbatim>\<open>try\<close> block: \<open>Inl\<close> is a thrown value.\<close>

definition getGeminiReview_try ::
  "(Request \<Rightarrow> exn + Response) \<Rightarrow> jsstring \<Rightarrow> jsstring \<Rightarrow> exn + jsstring" where
  "getGeminiReview_try fetch prompt apiKey =
     (case fetch (geminiRequest prompt apiKey) of
        Inl thrown \<Rightarrow> Inl thrown
      | Inr response \<Rightarrow>
          if \<not> ok response then
            (case bodyText response of
               Inl thrown \<Rightarrow> Inl thrown
             | Inr errorText \<Rightarrow>
                 Inl (Error (js ''Gemini API request failed: '' @ toString (httpStatus response) @
                             js '' '' @ statusText response @ js '' - '' @ errorText)))
          else
            (case bodyJson response of
               Inl thrown \<Rightarrow> Inl thrown
             | Inr data \<Rightarrow>
                 (case error data of
                    Some err \<Rightarrow>
                      Inl (Error (js ''Gemini API error: '' @
                                  (case message err of None \<Rightarrow> js ''undefined'' | Some m \<Rightarrow> m)))
                  | None \<Rightarrow>
                      (case firstCandidateText data of
                         None \<Rightarrow> Inl (Error (js ''No review content received from Gemini API''))
                       | Some reviewText \<Rightarrow>
                           if reviewText = []
                           then Inl (Error (js ''No review content received from Gemini API''))
                           else Inr reviewText))))"

text \<open>The \<^verbatim>\<open>catch\<close> block wraps whatever was thrown.\<close>

definition getGeminiReview ::
  "(Request \<Rightarrow> exn + Response) \<Rightarrow> jsstring \<Rightarrow> jsstring \<Rightarrow> exn + jsstring" where
  "getGeminiReview fetch prompt apiKey =
     (case getGeminiReview_try fetch prompt apiKey of
        Inr reviewText \<Rightarrow> Inr reviewText
      | Inl (Error m) \<Rightarrow> Inl (Error (js ''Failed to get AI review: '' @ m))
      | Inl NonError \<Rightarrow> Inl (Error (js ''Unknown error occurred while getting AI review'')))"

section \<open>The orchestrator\<close>

text \<open>
  What a run reads from its surroundings: the action input and the environment
  variables, the event payload and repository of \<^verbatim>\<open>github.context\<close>, and the answers of
  the three external calls (an answer is a value or a thrown one).  An absent title or
  body of the pull request is \<^verbatim>\<open>undefined\<close>.
\<close>

record PullRequest =
  number :: nat
  title :: "jsstring option"
  body :: "jsstring option"

record Env =
  inputGeminiApiKey :: jsstring
  envGEMINI_API_KEY :: "jsstring option"
  envGITHUB_TOKEN :: "jsstring option"
  pull_request :: "PullRequest option"
  repoOwner :: jsstring
  repoName :: jsstring
  listFiles :: "jsstring \<Rightarrow> jsstring \<Rightarrow> nat \<Rightarrow> exn + FileChange list"
  fetch :: "Request \<Rightarrow> exn + Response"
  createComment :: "jsstring \<Rightarrow> jsstring \<Rightarrow> nat \<Rightarrow> jsstring \<Rightarrow> exn option"

text \<open>
  \<^verbatim>\<open>core.getInput\<close> gives the empty string for an input that is not set, so
  \<^verbatim>\<open>core.getInput("gemini_api_key") || process.env.GEMINI_API_KEY\<close> is the input when it
  is non-empty and the environment variable otherwise.
\<close>

definition validateInputs :: "Env \<Rightarrow> exn + (jsstring \<times> jsstring)" where
  "validateInputs env =
     (let geminiKey = (if inputGeminiApiKey env \<noteq> [] then Some (inputGeminiApiKey env)
                       else envGEMINI_API_KEY env);
          githubToken = envGITHUB_TOKEN env
      in case geminiKey of
           None \<Rightarrow> Inl (Error (js ''Gemini API key is missing. Please provide it via 'gemini_api_key' input or 'GEMINI_API_KEY' environment variable.''))
         | Some k \<Rightarrow>
             if k = [] then Inl (Error (js ''Gemini API key is missing. Please provide it via 'gemini_api_key' input or 'GEMINI_API_KEY' environment variable.''))
             else
               (case githubToken of
                  None \<Rightarrow> Inl (Error (js ''GitHub token is missing. This should be automatically provided by GitHub Actions.''))
                | Some t \<Rightarrow>
                    if t = [] then Inl (Error (js ''GitHub token is missing. This should be automatically provided by GitHub Actions.''))
                    else Inr (k, t)))"

text \<open>
  \<^verbatim>\<open>files.filter(file => !shouldExcludeFile(file.filename, file.patch))\<close>: the files
  kept, and the log lines of the calls in order.
\<close>

fun filterFiles :: "FileChange list \<Rightarrow> FileChange list \<times> event list" where
  "filterFiles [] = ([], [])"
| "filterFiles (file # rest) =
     (let (exclude, log) = shouldExcludeFile (filename file) (patch file);
          (kept, logs) = filterFiles rest
      in (if \<not> exclude then file # kept else kept, log @ logs))"

definition reviewSummary :: "FileChange list \<Rightarrow> FileChange list \<Rightarrow> jsstring" where
  "reviewSummary filesToReview files =
     js ''**'' @ [0xD83D, 0xDCCA] @ js '' Review Summary:**\<newline>'' @
     js ''- Files reviewed: '' @ toString (length filesToReview) @ js ''/'' @
       toString (length files) @ js ''\<newline>'' @
     js ''- Total changes: '' @
       toString (foldl (\<lambda>sum file. sum + changes file) 0 filesToReview) @ js '' lines\<newline>'' @
     js ''- Files excluded: '' @ toString (length files - length filesToReview) @
       js '' (large files, lock files, etc.)\<newline>'' @
     js ''\<newline>''"

definition commentBody :: "jsstring \<Rightarrow> jsstring \<Rightarrow> jsstring" where
  "commentBody summary reviewText =
     [0xD83E, 0xDD16] @ js '' **AI Code Review**\<newline>\<newline>'' @ summary @ reviewText"

text \<open>
  The \<^verbatim>\<open>try\<close> block of \<^verbatim>\<open>run\<close>: the events so far, and the thrown value if the block
  was left by an exception (\<open>None\<close> when it ran to its end or returned early).  The
  \<open>Fetch\<close> event is the one call of \<^verbatim>\<open>fetch\<close> that \<^verbatim>\<open>getGeminiReview\<close> starts with.
\<close>

definition run_try :: "Env \<Rightarrow> event list \<times> exn option" where
  "run_try env =
     (let log0 = [Info ([0xD83E, 0xDD16] @ js '' Starting AI Code Review Bot...'')] in
      case validateInputs env of
        Inl thrown \<Rightarrow> (log0, Some thrown)
      | Inr (geminiKey, githubToken) \<Rightarrow>
     (let log1 = log0 @ [Info ([0x2705] @ js '' Input validation passed'')] in
      case pull_request env of
        None \<Rightarrow> (log1 @ [SetFailed (js ''This action only runs on pull_request events.'')], None)
      | Some pr \<Rightarrow>
     (let prNumber = number pr;
          repo = repoName env;
          owner = repoOwner env;
          prTitle = title pr;
          prBody = body pr;
          log2 = log1 @
            [Info ([0xD83D, 0xDCCB] @ js '' Reviewing PR #'' @ toString prNumber @ js '': '' @
                   [0x22] @ (case prTitle of None \<Rightarrow> js ''undefined'' | Some t \<Rightarrow> t) @ [0x22]),
             Info ([0xD83D, 0xDCC1] @ js '' Fetching changed files...''),
             ListFiles owner repo prNumber] in
      case listFiles env owner repo prNumber of
        Inl thrown \<Rightarrow> (log2, Some thrown)
      | Inr files \<Rightarrow>
     (let (filesToReview, filterLog) = filterFiles files;
          log3 = log2 @ filterLog @
            [Info ([0xD83D, 0xDCCA] @ js '' Found '' @ toString (length files) @
                   js '' changed files, reviewing '' @ toString (length filesToReview) @
                   js '' files'')] in
      if length filesToReview = 0 then
        (log3 @ [Info ([0x2139, 0xFE0F] @
                       js '' No files to review (all files were filtered out)'')], None)
      else
     (let reviewPrompt = createReviewPrompt filesToReview prTitle prBody;
          log4 = log3 @
            [Info ([0xD83E, 0xDDE0] @ js '' Getting AI review from Gemini...''),
             Fetch (geminiRequest reviewPrompt geminiKey)] in
      case getGeminiReview (fetch env) reviewPrompt geminiKey of
        Inl thrown \<Rightarrow> (log4, Some thrown)
      | Inr reviewText \<Rightarrow>
     (let summary = reviewSummary filesToReview files;
          log5 = log4 @
            [Info ([0xD83D, 0xDCAC] @ js '' Posting review comment...''),
             CreateComment owner repo prNumber (commentBody summary reviewText)] in
      case createComment env owner repo prNumber (commentBody summary reviewText) of
        Some thrown \<Rightarrow> (log5, Some thrown)
      | None \<Rightarrow>
          (log5 @ [Info ([0x2705] @ js '' Review posted successfully!'')], None)))))))"

text \<open>
  \<^verbatim>\<open>run\<close>: the \<^verbatim>\<open>try\<close> block, and the \<^verbatim>\<open>catch\<close> block that reports what was thrown
  (\<^verbatim>\<open>error.message || "Unknown error occurred"\<close>).  The result is everything the run
  did, in order; the run has failed when \<open>SetFailed\<close> is among it.  A thrown value
  that is not an \<^verbatim>\<open>Error\<close> is taken to be an object without a message; everything
  that \<^verbatim>\<open>getGeminiReview\<close> throws is an \<^verbatim>\<open>Error\<close>.
\<close>

definition run :: "Env \<Rightarrow> event list" where
  "run env =
     (case run_try env of
        (log, None) \<Rightarrow> log
      | (log, Some thrown) \<Rightarrow>
          (let errorMessage =
                 (case thrown of
                    Error m \<Rightarrow> if m \<noteq> [] then m else js ''Unknown error occurred''
                  | NonError \<Rightarrow> js ''Unknown error occurred'')
           in log @ [LogError ([0x274C] @ js '' Error: '' @ errorMessage),
                     SetFailed errorMessage]))"

fun isSetFailed :: "event \<Rightarrow> bool" where
  "isSetFailed (SetFailed m) = True"
| "isSetFailed e = False"

fun isFetch :: "event \<Rightarrow> bool" where
  "isFetch (Fetch r) = True"
| "isFetch e = False"

fun isCreateComment :: "event \<Rightarrow> bool" where
  "isCreateComment (CreateComment owner repo n b) = True"
| "isCreateComment e = False"

section \<open>A concrete run\<close>

text \<open>
  The end-to-end scenario of the specification: a pull request with five changed
  files, of which one is a lock file and one has a patch of 50,001 characters.
\<close>

definition scenarioFiles :: "FileChange list" where
  "scenarioFiles =
    [\<lparr>filename = js ''src/index.ts'', patch = Some (js ''+const a = 1;''),
      status = js ''modified'', additions = 1, deletions = 0, changes = 1\<rparr>,
     \<lparr>filename = js ''yarn.lock'', patch = Some (js ''+lodash@4.17.21:''),
      status = js ''modified'', additions = 1, deletions = 0, changes = 1\<rparr>,
     \<lparr>filename = js ''src/util.ts'', patch = Some (js ''-old\<newline>+new''),
      status = js ''modified'', additions = 1, deletions = 1, changes = 2\<rparr>,
     \<lparr>filename = js ''data/fixtures.json'', patch = Some (replicate 50001 0x61),
      status = js ''added'', additions = 1, deletions = 0, changes = 1\<rparr>,
     \<lparr>filename = js ''README.md'', patch = Some (js ''+Docs''),
      status = js ''modified'', additions = 1, deletions = 0, changes = 1\<rparr>]"

definition scenarioResponse :: Response where
  "scenarioResponse =
    \<lparr>httpStatus = 200, statusText = js ''OK'', bodyText = Inr (js ''{}''),
     bodyJson = Inr \<lparr>candidates = Some [\<lparr>content = Some \<lparr>parts =
                      Some [\<lparr>partText = Some (js ''Looks good.'')\<rparr>]\<rparr>\<rparr>],
                    error = None\<rparr>\<rparr>"

definition scenarioErrorResponse :: Response where
  "scenarioErrorResponse =
    \<lparr>httpStatus = 200, statusText = js ''OK'', bodyText = Inr (js ''{}''),
     bodyJson = Inr \<lparr>candidates = None,
                    error = Some \<lparr>message = Some (js ''API key not valid'')\<rparr>\<rparr>\<rparr>"

definition scenarioEnv :: Env where
  "scenarioEnv =
    \<lparr>inputGeminiApiKey = js ''key'',
     envGEMINI_API_KEY = None,
     envGITHUB_TOKEN = Some (js ''token''),
     pull_request = Some \<lparr>number = 7, title = Some (js ''Refactor''), body = None\<rparr>,
     repoOwner = js ''octo'',
     repoName = js ''demo'',
     listFiles = (\<lambda>owner repo prNumber. Inr scenarioFiles),
     fetch = (\<lambda>request. Inr scenarioResponse),
     createComment = (\<lambda>owner repo prNumber commentText. None)\<rparr>"

section \<open>Properties of the regular expressions\<close>

lemma rmatch_lit:
  "rmatch (lit w) s = (if prefix w s then [drop (length w) s] else [])"
proof (induction w arbitrary: s)
  case Nil
  show ?case by simp
next
  case (Cons c cs)
  show ?case
  proof (cases s)
    case Nil
    then show ?thesis by simp
  next
    case (Cons x xs)
    then show ?thesis using Cons.IH [of xs] by simp
  qed
qed

lemma test_iff: "test r s \<longleftrightarrow> (\<exists>t. suffix t s \<and> rmatch r t \<noteq> [])"
  by (auto simp: test_def list_ex_iff)

lemma prefix_drop_Nil: "prefix w t \<and> drop (length w) t = [] \<longleftrightarrow> t = w"
  by (auto simp: prefix_def)

lemma test_lit_End: "test (Seq (lit w) End) s \<longleftrightarrow> suffix w s"
proof -
  have "rmatch (Seq (lit w) End) t \<noteq> [] \<longleftrightarrow> t = w" for t
    using prefix_drop_Nil [of w t] by (auto simp: rmatch_lit)
  then show ?thesis by (simp add: test_iff)
qed

lemma test_lit: "test (lit w) s \<longleftrightarrow> sublist w s"
proof -
  have "test (lit w) s \<longleftrightarrow> (\<exists>t. suffix t s \<and> prefix w t)"
    by (auto simp: test_iff rmatch_lit)
  also have "\<dots> \<longleftrightarrow> sublist w s"
    by (auto simp: sublist_def suffix_def prefix_def)
  finally show ?thesis .
qed

lemma test_lit_Alt_End:
  "test (Seq (lit w) (Seq (Alt (lit a) (lit b)) End)) s \<longleftrightarrow>
     suffix (w @ a) s \<or> suffix (w @ b) s"
proof -
  have "rmatch (Seq (lit w) (Seq (Alt (lit a) (lit b)) End)) t \<noteq> [] \<longleftrightarrow>
          t = w @ a \<or> t = w @ b" for t
  proof (cases "prefix w t")
    case False
    then show ?thesis by (auto simp: rmatch_lit)
  next
    case True
    then obtain u where t: "t = w @ u" by (auto simp: prefix_def)
    show ?thesis
      using prefix_drop_Nil [of a u] prefix_drop_Nil [of b u]
      by (auto simp: rmatch_lit t)
  qed
  then show ?thesis by (auto simp: test_iff)
qed

lemma js_append: "js (a @ b) = js a @ js b"
  by (simp add: js_def)

lemma excluded_by_pattern_iff:
  "list_ex (\<lambda>pattern. test pattern fname) EXCLUDED_FILE_PATTERNS \<longleftrightarrow>
     suffix (js ''.lock'') fname \<or>
     suffix (js ''package-lock.json'') fname \<or>
     suffix (js ''yarn.lock'') fname \<or>
     suffix (js ''pnpm-lock.yaml'') fname \<or>
     suffix (js ''.min.js'') fname \<or>
     suffix (js ''.min.css'') fname \<or>
     suffix (js ''.bundle.js'') fname \<or>
     suffix (js ''.bundle.css'') fname \<or>
     sublist (js ''node_modules'') fname \<or>
     sublist (js ''.git'') fname \<or>
     suffix (js ''.DS_Store'') fname \<or>
     suffix (js ''.log'') fname \<or>
     suffix (js ''.tmp'') fname \<or>
     suffix (js ''.temp'') fname"
proof -
  have a: "js ''.min.'' @ js ''js'' = js ''.min.js''"
          "js ''.min.'' @ js ''css'' = js ''.min.css''"
          "js ''.bundle.'' @ js ''js'' = js ''.bundle.js''"
          "js ''.bundle.'' @ js ''css'' = js ''.bundle.css''"
    by (simp_all add: js_def)
  show ?thesis
    unfolding EXCLUDED_FILE_PATTERNS_def list_ex_Cons_iff list_ex_Nil_iff test_lit_End test_lit test_lit_Alt_End a
    by blast
qed

section \<open>The file filter: exclusion by name and by size\<close>

text \<open>
  C1.  A filename that matches one of the fixed exclusion patterns is excluded, whatever
  the patch argument is (absent, empty or any text).  The patterns are spelt out as what
  they match: a filename ending in \<^verbatim>\<open>.lock\<close>, \<^verbatim>\<open>package-lock.json\<close>, \<^verbatim>\<open>yarn.lock\<close>,
  \<^verbatim>\<open>pnpm-lock.yaml\<close>, \<^verbatim>\<open>.min.js\<close>, \<^verbatim>\<open>.min.css\<close>, \<^verbatim>\<open>.bundle.js\<close>, \<^verbatim>\<open>.bundle.css\<close>,
  \<^verbatim>\<open>.DS_Store\<close>, \<^verbatim>\<open>.log\<close>, \<^verbatim>\<open>.tmp\<close> or \<^verbatim>\<open>.temp\<close>, or containing \<^verbatim>\<open>node_modules\<close>
  or \<^verbatim>\<open>.git\<close>.
\<close>

theorem shouldExcludeFile_pattern:
  assumes "suffix (js ''.lock'') fname \<or>
           suffix (js ''package-lock.json'') fname \<or>
           suffix (js ''yarn.lock'') fname \<or>
           suffix (js ''pnpm-lock.yaml'') fname \<or>
           suffix (js ''.min.js'') fname \<or>
           suffix (js ''.min.css'') fname \<or>
           suffix (js ''.bundle.js'') fname \<or>
           suffix (js ''.bundle.css'') fname \<or>
           sublist (js ''node_modules'') fname \<or>
           sublist (js ''.git'') fname \<or>
           suffix (js ''.DS_Store'') fname \<or>
           suffix (js ''.log'') fname \<or>
           suffix (js ''.tmp'') fname \<or>
           suffix (js ''.temp'') fname"
  shows "fst (shouldExcludeFile fname diff) = True"
proof -
  have "list_ex (\<lambda>pattern. test pattern fname) EXCLUDED_FILE_PATTERNS"
    using assms by (simp only: excluded_by_pattern_iff)
  then show ?thesis by (simp add: shouldExcludeFile_def)
qed

theorem shouldExcludeFile_pattern_witness:
  "suffix (js ''.min.css'') (js ''public/site.min.css'') \<and>
   fst (shouldExcludeFile (js ''public/site.min.css'') (Some (js ''+body{}''))) = True"
proof -
  have h: "suffix (js ''.min.css'') (js ''public/site.min.css'')"
    by code_simp
  show ?thesis
    using h shouldExcludeFile_pattern [of "js ''public/site.min.css''" "Some (js ''+body{}'')"]
    by simp
qed

text \<open>
  C2.  A patch text of more than 50,000 characters (UTF-16 code units, what
  \<^verbatim>\<open>patch.length\<close> counts) excludes the file, whatever its name is.
\<close>

theorem shouldExcludeFile_large:
  assumes "length diff > 50000"
  shows "fst (shouldExcludeFile fname (Some diff)) = True"
proof -
  from assms have "diff \<noteq> []" by auto
  with assms show ?thesis
    by (simp add: shouldExcludeFile_def MAX_FILE_SIZE_def)
qed

theorem shouldExcludeFile_large_witness:
  "length (replicate 50001 (0x61 :: jschar)) > 50000 \<and>
   fst (shouldExcludeFile (js ''src/index.ts'') (Some (replicate 50001 0x61))) = True"
proof -
  have h: "length (replicate 50001 (0x61 :: jschar)) > 50000" by simp
  show ?thesis
    using h shouldExcludeFile_large [OF h, of "js ''src/index.ts''"] by simp
qed

text \<open>
  C9.  The patterns \<^verbatim>\<open>/\.git/\<close> and \<^verbatim>\<open>/node_modules/\<close> are not anchored: a filename
  with \<^verbatim>\<open>.git\<close> or \<^verbatim>\<open>node_modules\<close> anywhere in its path is excluded for every
  patch value, and so is every file under \<^verbatim>\<open>.github/\<close>.
\<close>

theorem shouldExcludeFile_unanchored:
  assumes "sublist (js ''.git'') fname \<or> sublist (js ''node_modules'') fname"
  shows "fst (shouldExcludeFile fname diff) = True"
proof -
  have "list_ex (\<lambda>pattern. test pattern fname) EXCLUDED_FILE_PATTERNS"
    using assms by (auto simp only: excluded_by_pattern_iff)
  then show ?thesis by (simp add: shouldExcludeFile_def)
qed

theorem shouldExcludeFile_unanchored_witness:
  "sublist (js ''.git'') (js ''.github/workflows/ai-review.yml'') \<and>
   fst (shouldExcludeFile (js ''.github/workflows/ai-review.yml'') None) = True"
proof -
  have h: "sublist (js ''.git'') (js ''.github/workflows/ai-review.yml'')"
    by code_simp
  show ?thesis
    using h shouldExcludeFile_unanchored [of "js ''.github/workflows/ai-review.yml''" None]
    by simp
qed

section \<open>The prompt builder: counts and blocks\<close>

lemma unat_digit: "d < 10 \<Longrightarrow> unat (48 + of_nat d :: jschar) = 48 + d"
proof -
  assume "d < 10"
  have "unat (of_nat (48 + d) :: jschar) = (48 + d) mod 2 ^ LENGTH(16)"
    by (rule unat_of_nat)
  with \<open>d < 10\<close> show ?thesis by simp
qed

lemma decimalValue_snoc: "decimalValue (s @ [c]) = 10 * decimalValue s + digitValue c"
  by (simp add: decimalValue_def)

lemma decimalValue_toString: "decimalValue (toString n) = n"
proof (induction n rule: toString.induct)
  case (1 n)
  show ?case
  proof (cases "n < 10")
    case True
    then show ?thesis
      by (simp add: toString.simps [of n] decimalValue_def digitValue_def unat_digit)
  next
    case False
    have "n mod 10 < 10" by simp
    then have "digitValue (of_nat (48 + n mod 10)) = n mod 10"
      by (simp add: digitValue_def unat_digit)
    with False "1.IH" show ?thesis
      by (simp add: toString.simps [of n] decimalValue_snoc)
  qed
qed

lemma isDigit_toString: "list_all isDigit (toString n)"
proof (induction n rule: toString.induct)
  case (1 n)
  show ?case
  proof (cases "n < 10")
    case True
    then show ?thesis
      by (simp add: toString.simps [of n] isDigit_def unat_digit)
  next
    case False
    have "n mod 10 < 10" by simp
    then have "isDigit (of_nat (48 + n mod 10))"
      by (simp add: isDigit_def unat_digit)
    with False "1.IH" show ?thesis
      by (simp add: toString.simps [of n])
  qed
qed

lemma toString_not_Nil: "toString n \<noteq> []"
  by (subst toString.simps) simp

lemma toString_no_leading_zero: "n \<noteq> 0 \<Longrightarrow> hd (toString n) \<noteq> 48"
proof (induction n rule: toString.induct)
  case (1 n)
  show ?case
  proof (cases "n < 10")
    case True
    with "1.prems" have "unat (48 + of_nat n :: jschar) \<noteq> unat (48 :: jschar)"
      by (simp add: unat_digit)
    then have "(48 + of_nat n :: jschar) \<noteq> 48" by auto
    with True show ?thesis
      by (simp add: toString.simps [of n])
  next
    case False
    then have "n div 10 \<noteq> 0" by simp
    with False "1.IH" have "hd (toString (n div 10)) \<noteq> 48" by simp
    with False show ?thesis
      by (simp add: toString.simps [of n] toString_not_Nil)
  qed
qed

lemma foldl_changes:
  "foldl (\<lambda>sum file. sum + changes file) acc files = acc + sum_list (map changes files)"
  by (induction files arbitrary: acc) simp_all

lemma forEachFile_blocks:
  "forEachFile index files prompt =
     prompt @ concat (map (\<lambda>(i, file). fileBlock i file)
                (filter (\<lambda>(i, file). truthy (patch file))
                   (zip [index..<index + length files] files)))"
proof (induction files arbitrary: index prompt)
  case Nil
  show ?case by simp
next
  case (Cons f rest)
  have "[index..<index + Suc (length rest)] = index # [Suc index..<Suc index + length rest]"
    by (subst upt_conv_Cons) simp_all
  then show ?case
    using Cons.IH [of "Suc index"] by simp
qed

lemma createReviewPrompt_closed_form:
  "createReviewPrompt files prTitle prBody =
     promptHeader prTitle prBody (length files) (sum_list (map changes files)) @
     concat (reviewedBlocks files) @ promptClosing"
  by (simp add: createReviewPrompt_def Let_def foldl_changes forEachFile_blocks
        reviewedBlocks_def)

lemma sublist_after_nine:
  "sublist (t1 @ t2 @ t3 @ t4 @ t5 @ t6)
     (a1 @ a2 @ a3 @ a4 @ a5 @ a6 @ a7 @ a8 @ a9 @ t1 @ t2 @ t3 @ t4 @ t5 @ t6 @ r)"
proof -
  have "a1 @ a2 @ a3 @ a4 @ a5 @ a6 @ a7 @ a8 @ a9 @ t1 @ t2 @ t3 @ t4 @ t5 @ t6 @ r =
        (a1 @ a2 @ a3 @ a4 @ a5 @ a6 @ a7 @ a8 @ a9) @ (t1 @ t2 @ t3 @ t4 @ t5 @ t6) @ r"
    by simp
  then show ?thesis by (simp only: sublist_appendI)
qed

text \<open>
  Of each file the prompt reads the six fields of \<^verbatim>\<open>FileChange\<close> only: whatever else
  the objects carry does not reach it.
\<close>

lemma fileBlock_truncate: "fileBlock index (FileChange.truncate f) = fileBlock index f"
  by (simp add: fileBlock_def FileChange.truncate_def)

lemma reviewedBlocks_truncate:
  "reviewedBlocks (map FileChange.truncate files) = reviewedBlocks files"
proof -
  have z: "zip [0..<length files] (map FileChange.truncate files) =
           map (\<lambda>(i, f). (i, FileChange.truncate f)) (zip [0..<length files] files)"
    by (simp add: zip_map2)
  have p: "patch (FileChange.truncate f) = patch f" for f :: "'a FileChange_scheme"
    by (simp add: FileChange.truncate_def)
  show ?thesis
    by (simp add: reviewedBlocks_def z filter_map o_def split_def p fileBlock_truncate)
qed

lemma createReviewPrompt_truncate:
  "createReviewPrompt (map FileChange.truncate files) prTitle prBody =
   createReviewPrompt files prTitle prBody"
proof -
  have c: "changes (FileChange.truncate f) = changes f" for f :: "'a FileChange_scheme"
    by (simp add: FileChange.truncate_def)
  show ?thesis
    by (simp add: createReviewPrompt_closed_form reviewedBlocks_truncate o_def c)
qed

text \<open>
  C4.  The prompt contains the decimal rendering of the number of files, as the
  files-changed count, and of the sum of the \<^verbatim>\<open>changes\<close> fields of all the files, as
  the total-changes count.  (That \<open>toString\<close> is the decimal rendering, digits only,
  of the right value and without a leading zero, is lemmas \<open>isDigit_toString\<close>,
  \<open>decimalValue_toString\<close> and \<open>toString_no_leading_zero\<close>.)
\<close>

theorem createReviewPrompt_counts:
  "sublist
     (js ''- Files changed: '' @ toString (length files) @ js ''\<newline>'' @
      js ''- Total changes: '' @ toString (sum_list (map changes files)) @ js '' lines\<newline>'')
     (createReviewPrompt files prTitle prBody)"
  unfolding createReviewPrompt_closed_form promptHeader_def append_assoc
  by (rule sublist_after_nine)

theorem createReviewPrompt_counts_witness:
  "sublist (js ''- Files changed: 2\<newline>- Total changes: 12 lines\<newline>'')
     (createReviewPrompt
        [\<lparr>filename = js ''src/a.ts'', patch = Some (js ''+let x = 1;''), status = js ''added'',
          additions = 1, deletions = 0, changes = 1\<rparr>,
         \<lparr>filename = js ''src/b.ts'', patch = None, status = js ''modified'',
          additions = 4, deletions = 7, changes = 11\<rparr>]
        None None)"
proof -
  let ?files = "[\<lparr>filename = js ''src/a.ts'', patch = Some (js ''+let x = 1;''),
                  status = js ''added'', additions = 1, deletions = 0, changes = 1\<rparr>,
                 \<lparr>filename = js ''src/b.ts'', patch = None, status = js ''modified'',
                  additions = 4, deletions = 7, changes = 11\<rparr>]"
  have n: "length ?files = 2" "sum_list (map changes ?files) = 12"
    by simp_all
  have t: "toString 2 = js ''2''" "toString 12 = js ''12''"
    by (simp_all add: toString.simps js_def)
  have "js ''- Files changed: '' @ js ''2'' @ js ''\<newline>'' @
        js ''- Total changes: '' @ js ''12'' @ js '' lines\<newline>'' =
        js ''- Files changed: 2\<newline>- Total changes: 12 lines\<newline>''"
    by (simp add: js_def)
  then show ?thesis
    using createReviewPrompt_counts [of ?files None None]
    unfolding n t by simp
qed

text \<open>
  C5.  The prompt is the header, then one block for each input file whose patch is
  present and non-empty, in input order, then the closing instructions; a file whose
  patch is absent or empty contributes nothing.  The block of a file shows its position
  in the input list (from 1), its filename, its status, its addition and deletion
  counts, and its diff text verbatim between the code fences.
\<close>

theorem createReviewPrompt_blocks:
  "createReviewPrompt files prTitle prBody =
     promptHeader prTitle prBody (length files) (sum_list (map changes files)) @
     concat (map (\<lambda>(index, file). fileBlock index file)
               (filter (\<lambda>(index, file). patch file \<noteq> None \<and> patch file \<noteq> Some [])
                  (zip [0..<length files] files))) @
     promptClosing \<and>
   (\<forall>index f p. patch f = Some p \<longrightarrow>
      fileBlock index f =
        js ''**File '' @ toString (index + 1) @ js '': '' @ filename f @
        js ''** ('' @ status f @ js '', +'' @ toString (additions f) @
        js ''/-'' @ toString (deletions f) @ js '')\<newline>```diff\<newline>'' @
        p @ js ''\<newline>```\<newline>\<newline>'')"
proof (intro conjI allI impI)
  have t: "truthy x \<longleftrightarrow> x \<noteq> None \<and> x \<noteq> Some []" for x
    by (cases x) (simp_all add: truthy_def)
  show "createReviewPrompt files prTitle prBody =
     promptHeader prTitle prBody (length files) (sum_list (map changes files)) @
     concat (map (\<lambda>(index, file). fileBlock index file)
               (filter (\<lambda>(index, file). patch file \<noteq> None \<and> patch file \<noteq> Some [])
                  (zip [0..<length files] files))) @
     promptClosing"
    by (simp add: createReviewPrompt_closed_form reviewedBlocks_def t)
next
  fix index :: nat and f :: "'b FileChange_scheme" and p
  assume "patch f = Some p"
  then show "fileBlock index f =
        js ''**File '' @ toString (index + 1) @ js '': '' @ filename f @
        js ''** ('' @ status f @ js '', +'' @ toString (additions f) @
        js ''/-'' @ toString (deletions f) @ js '')\<newline>```diff\<newline>'' @
        p @ js ''\<newline>```\<newline>\<newline>''"
    by (simp add: fileBlock_def js_def)
qed

theorem createReviewPrompt_blocks_witness:
  "patch \<lparr>filename = js ''src/b.ts'', patch = Some (js ''+let x = 1;''), status = js ''modified'',
          additions = 1, deletions = 0, changes = 1\<rparr> = Some (js ''+let x = 1;'') \<and>
   createReviewPrompt
     [\<lparr>filename = js ''src/a.ts'', patch = None, status = js ''renamed'',
       additions = 0, deletions = 0, changes = 0\<rparr>,
      \<lparr>filename = js ''src/b.ts'', patch = Some (js ''+let x = 1;''), status = js ''modified'',
       additions = 1, deletions = 0, changes = 1\<rparr>,
      \<lparr>filename = js ''src/c.ts'', patch = Some [], status = js ''modified'',
       additions = 0, deletions = 0, changes = 0\<rparr>]
     None None =
   promptHeader None None 3 1 @
   js ''**File 2: src/b.ts** (modified, +1/-0)\<newline>```diff\<newline>+let x = 1;\<newline>```\<newline>\<newline>'' @
   promptClosing"
proof -
  let ?a = "\<lparr>filename = js ''src/a.ts'', patch = None, status = js ''renamed'',
             additions = 0, deletions = 0, changes = 0\<rparr>"
  let ?b = "\<lparr>filename = js ''src/b.ts'', patch = Some (js ''+let x = 1;''),
             status = js ''modified'', additions = 1, deletions = 0, changes = 1\<rparr>"
  let ?c = "\<lparr>filename = js ''src/c.ts'', patch = Some [], status = js ''modified'',
             additions = 0, deletions = 0, changes = 0\<rparr>"
  have h: "patch ?b = Some (js ''+let x = 1;'')" by simp
  have z: "zip [0..<length [?a, ?b, ?c]] [?a, ?b, ?c] = [(0, ?a), (1, ?b), (2, ?c)]"
    by (simp add: upt_rec)
  have t: "toString 0 = js ''0''" "toString (Suc 0) = js ''1''"
          "toString (Suc (Suc 0)) = js ''2''"
    by (simp_all add: toString.simps js_def)
  have n: "js ''+let x = 1;'' \<noteq> []" by (simp add: js_def)
  from createReviewPrompt_blocks [of "[?a, ?b, ?c]" None None]
  have p: "createReviewPrompt [?a, ?b, ?c] None None =
           promptHeader None None (length [?a, ?b, ?c]) (sum_list (map changes [?a, ?b, ?c])) @
           concat (map (\<lambda>(index, file). fileBlock index file)
             (filter (\<lambda>(index, file). patch file \<noteq> None \<and> patch file \<noteq> Some [])
                (zip [0..<length [?a, ?b, ?c]] [?a, ?b, ?c]))) @
           promptClosing"
    and b: "fileBlock 1 ?b =
        js ''**File '' @ toString (1 + 1) @ js '': '' @ filename ?b @
        js ''** ('' @ status ?b @ js '', +'' @ toString (additions ?b) @
        js ''/-'' @ toString (deletions ?b) @ js '')\<newline>```diff\<newline>'' @
        js ''+let x = 1;'' @ js ''\<newline>```\<newline>\<newline>''"
    using h by blast+
  have "fileBlock 1 ?b =
        js ''**File 2: src/b.ts** (modified, +1/-0)\<newline>```diff\<newline>+let x = 1;\<newline>```\<newline>\<newline>''"
    unfolding b by (simp add: t) (simp add: js_def)
  with p show ?thesis
    unfolding z by (simp add: n numeral_3_eq_3)
qed

section \<open>The model client: result and errors\<close>

lemma index0_Some_iff: "index0 xs = Some x \<longleftrightarrow> (\<exists>rest. xs = x # rest)"
  by (cases xs) (simp_all add: index0_def)

lemma firstCandidateText_Some_iff:
  "firstCandidateText data = Some t \<longleftrightarrow>
     (\<exists>c cs cont p ps. candidates data = Some (c # cs) \<and> content c = Some cont \<and>
        parts cont = Some (p # ps) \<and> partText p = Some t)"
  unfolding firstCandidateText_def bind_eq_Some_conv index0_Some_iff
  by blast

lemma getGeminiReview_try_Inr_iff:
  "getGeminiReview_try f prompt apiKey = Inr t \<longleftrightarrow>
     (\<exists>response data. f (geminiRequest prompt apiKey) = Inr response \<and> ok response \<and>
        bodyJson response = Inr data \<and> error data = None \<and>
        firstCandidateText data = Some t \<and> t \<noteq> [])"
  by (auto simp: getGeminiReview_try_def split: sum.splits option.splits)

lemma getGeminiReview_Inr_iff:
  "getGeminiReview f prompt apiKey = Inr t \<longleftrightarrow> getGeminiReview_try f prompt apiKey = Inr t"
  by (auto simp: getGeminiReview_def split: sum.splits exn.splits)

lemma getGeminiReview_error_field:
  assumes "f (geminiRequest prompt apiKey) = Inr response"
      and "bodyJson response = Inr data" and "error data = Some err"
  shows "\<exists>m. getGeminiReview f prompt apiKey = Inl (Error m) \<and> m \<noteq> []"
  using assms
  by (auto simp: getGeminiReview_def getGeminiReview_try_def js_def
           split: sum.splits exn.splits)

text \<open>
  C6.  \<open>getGeminiReview\<close> returns a review text exactly when the HTTP response has a
  success status, the parsed body has no error field, and the first part of the first
  candidate has a non-empty text; the text returned is that one.  Otherwise it fails:
  on a non-success status with an error that carries the status, the status text and
  the body text; on a success status and an error field with an error that carries the
  embedded message; on a success status, no error field and no text (absent at any
  level, or empty) with the empty-response error.
\<close>

theorem getGeminiReview_result:
  "(getGeminiReview f prompt apiKey = Inr reviewText \<longleftrightarrow>
      (\<exists>response data c cs cont p ps.
         f (geminiRequest prompt apiKey) = Inr response \<and> ok response \<and>
         bodyJson response = Inr data \<and> error data = None \<and>
         candidates data = Some (c # cs) \<and> content c = Some cont \<and>
         parts cont = Some (p # ps) \<and> partText p = Some reviewText \<and> reviewText \<noteq> [])) \<and>
   (\<forall>response errorText.
      f (geminiRequest prompt apiKey) = Inr response \<and> \<not> ok response \<and>
      bodyText response = Inr errorText \<longrightarrow>
      getGeminiReview f prompt apiKey =
        Inl (Error (js ''Failed to get AI review: '' @ js ''Gemini API request failed: '' @
                    toString (httpStatus response) @ js '' '' @ statusText response @
                    js '' - '' @ errorText))) \<and>
   (\<forall>response data err.
      f (geminiRequest prompt apiKey) = Inr response \<and> ok response \<and>
      bodyJson response = Inr data \<and> error data = Some err \<longrightarrow>
      getGeminiReview f prompt apiKey =
        Inl (Error (js ''Failed to get AI review: '' @ js ''Gemini API error: '' @
                    (case message err of None \<Rightarrow> js ''undefined'' | Some m \<Rightarrow> m)))) \<and>
   (\<forall>response data.
      f (geminiRequest prompt apiKey) = Inr response \<and> ok response \<and>
      bodyJson response = Inr data \<and> error data = None \<and>
      (firstCandidateText data = None \<or> firstCandidateText data = Some []) \<longrightarrow>
      getGeminiReview f prompt apiKey =
        Inl (Error (js ''Failed to get AI review: '' @
                    js ''No review content received from Gemini API'')))"
proof (intro conjI allI impI)
  show "getGeminiReview f prompt apiKey = Inr reviewText \<longleftrightarrow>
      (\<exists>response data c cs cont p ps.
         f (geminiRequest prompt apiKey) = Inr response \<and> ok response \<and>
         bodyJson response = Inr data \<and> error data = None \<and>
         candidates data = Some (c # cs) \<and> content c = Some cont \<and>
         parts cont = Some (p # ps) \<and> partText p = Some reviewText \<and> reviewText \<noteq> [])"
    unfolding getGeminiReview_Inr_iff getGeminiReview_try_Inr_iff firstCandidateText_Some_iff
    by blast
next
  fix response errorText
  assume "f (geminiRequest prompt apiKey) = Inr response \<and> \<not> ok response \<and>
          bodyText response = Inr errorText"
  then show "getGeminiReview f prompt apiKey =
        Inl (Error (js ''Failed to get AI review: '' @ js ''Gemini API request failed: '' @
                    toString (httpStatus response) @ js '' '' @ statusText response @
                    js '' - '' @ errorText))"
    by (simp add: getGeminiReview_def getGeminiReview_try_def)
next
  fix response data err
  assume "f (geminiRequest prompt apiKey) = Inr response \<and> ok response \<and>
          bodyJson response = Inr data \<and> error data = Some err"
  then show "getGeminiReview f prompt apiKey =
        Inl (Error (js ''Failed to get AI review: '' @ js ''Gemini API error: '' @
                    (case message err of None \<Rightarrow> js ''undefined'' | Some m \<Rightarrow> m)))"
    by (simp add: getGeminiReview_def getGeminiReview_try_def)
next
  fix response data
  assume "f (geminiRequest prompt apiKey) = Inr response \<and> ok response \<and>
          bodyJson response = Inr data \<and> error data = None \<and>
          (firstCandidateText data = None \<or> firstCandidateText data = Some [])"
  then show "getGeminiReview f prompt apiKey =
        Inl (Error (js ''Failed to get AI review: '' @
                    js ''No review content received from Gemini API''))"
    by (auto simp: getGeminiReview_def getGeminiReview_try_def)
qed

theorem getGeminiReview_result_witness:
  "getGeminiReview
     (\<lambda>req. Inr \<lparr>httpStatus = 200, statusText = js ''OK'', bodyText = Inr (js ''{}''),
                  bodyJson = Inr \<lparr>candidates = Some [\<lparr>content = Some \<lparr>parts =
                    Some [\<lparr>partText = Some (js ''Looks good.'')\<rparr>]\<rparr>\<rparr>], error = None\<rparr>\<rparr>)
     (js ''prompt'') (js ''key'') = Inr (js ''Looks good.'') \<and>
   getGeminiReview
     (\<lambda>req. Inr \<lparr>httpStatus = 429, statusText = js ''Too Many Requests'',
                  bodyText = Inr (js ''quota exceeded''), bodyJson = Inl (Error (js ''bad JSON''))\<rparr>)
     (js ''prompt'') (js ''key'') =
     Inl (Error (js ''Failed to get AI review: Gemini API request failed: 429 Too Many Requests - quota exceeded'')) \<and>
   getGeminiReview
     (\<lambda>req. Inr \<lparr>httpStatus = 200, statusText = js ''OK'', bodyText = Inr (js ''{}''),
                  bodyJson = Inr \<lparr>candidates = None,
                    error = Some \<lparr>message = Some (js ''API key not valid'')\<rparr>\<rparr>\<rparr>)
     (js ''prompt'') (js ''key'') =
     Inl (Error (js ''Failed to get AI review: Gemini API error: API key not valid'')) \<and>
   getGeminiReview
     (\<lambda>req. Inr \<lparr>httpStatus = 200, statusText = js ''OK'', bodyText = Inr (js ''{}''),
                  bodyJson = Inr \<lparr>candidates = Some [], error = None\<rparr>\<rparr>)
     (js ''prompt'') (js ''key'') =
     Inl (Error (js ''Failed to get AI review: No review content received from Gemini API''))"
proof (intro conjI)
  let ?good = "\<lparr>httpStatus = 200, statusText = js ''OK'', bodyText = Inr (js ''{}''),
                 bodyJson = Inr \<lparr>candidates = Some [\<lparr>content = Some \<lparr>parts =
                   Some [\<lparr>partText = Some (js ''Looks good.'')\<rparr>]\<rparr>\<rparr>], error = None\<rparr>\<rparr>"
  have "js ''Looks good.'' \<noteq> []" by (simp add: js_def)
  then have h: "\<exists>response data c cs cont p ps.
         (\<lambda>req. Inr ?good) (geminiRequest (js ''prompt'') (js ''key'')) = Inr response \<and>
         ok response \<and> bodyJson response = Inr data \<and> error data = None \<and>
         candidates data = Some (c # cs) \<and> content c = Some cont \<and>
         parts cont = Some (p # ps) \<and> partText p = Some (js ''Looks good.'') \<and>
         js ''Looks good.'' \<noteq> []"
    by (simp add: ok_def)
  show "getGeminiReview (\<lambda>req. Inr ?good) (js ''prompt'') (js ''key'') =
        Inr (js ''Looks good.'')"
    by (rule getGeminiReview_result
      [of "\<lambda>req. Inr ?good" "js ''prompt''" "js ''key''" "js ''Looks good.''",
       THEN conjunct1, THEN iffD2, OF h])
next
  let ?busy = "\<lparr>httpStatus = 429, statusText = js ''Too Many Requests'',
                 bodyText = Inr (js ''quota exceeded''), bodyJson = Inl (Error (js ''bad JSON''))\<rparr>"
  have t: "toString 429 = js ''429''"
    by (simp add: toString.simps js_def)
  have e: "js ''Failed to get AI review: '' @ js ''Gemini API request failed: '' @
        js ''429'' @ js '' '' @ js ''Too Many Requests'' @ js '' - '' @ js ''quota exceeded'' =
        js ''Failed to get AI review: Gemini API request failed: 429 Too Many Requests - quota exceeded''"
    by (simp add: js_def)
  have h: "(\<lambda>req. Inr ?busy) (geminiRequest (js ''prompt'') (js ''key'')) = Inr ?busy \<and>
           \<not> ok ?busy \<and> bodyText ?busy = Inr (js ''quota exceeded'')"
    by (simp add: ok_def)
  have "getGeminiReview (\<lambda>req. Inr ?busy) (js ''prompt'') (js ''key'') =
        Inl (Error (js ''Failed to get AI review: '' @ js ''Gemini API request failed: '' @
                    toString (httpStatus ?busy) @ js '' '' @ statusText ?busy @
                    js '' - '' @ js ''quota exceeded''))"
    by (rule getGeminiReview_result
      [of "\<lambda>req. Inr ?busy" "js ''prompt''" "js ''key''" "[]", THEN conjunct2, THEN conjunct1,
       rule_format, of ?busy "js ''quota exceeded''", OF h])
  then show "getGeminiReview (\<lambda>req. Inr ?busy) (js ''prompt'') (js ''key'') =
     Inl (Error (js ''Failed to get AI review: Gemini API request failed: 429 Too Many Requests - quota exceeded''))"
    by (simp only: Response.simps t e)
next
  let ?err = "\<lparr>message = Some (js ''API key not valid'')\<rparr>"
  let ?data = "\<lparr>candidates = None, error = Some ?err\<rparr>"
  let ?denied = "\<lparr>httpStatus = 200, statusText = js ''OK'', bodyText = Inr (js ''{}''),
                   bodyJson = Inr ?data\<rparr>"
  have e: "js ''Failed to get AI review: '' @ js ''Gemini API error: '' @ js ''API key not valid'' =
        js ''Failed to get AI review: Gemini API error: API key not valid''"
    by (simp add: js_def)
  have h: "(\<lambda>req. Inr ?denied) (geminiRequest (js ''prompt'') (js ''key'')) = Inr ?denied \<and>
           ok ?denied \<and> bodyJson ?denied = Inr ?data \<and> error ?data = Some ?err"
    by (simp add: ok_def)
  have "getGeminiReview (\<lambda>req. Inr ?denied) (js ''prompt'') (js ''key'') =
        Inl (Error (js ''Failed to get AI review: '' @ js ''Gemini API error: '' @
                    (case message ?err of None \<Rightarrow> js ''undefined'' | Some m \<Rightarrow> m)))"
    by (rule getGeminiReview_result
      [of "\<lambda>req. Inr ?denied" "js ''prompt''" "js ''key''" "[]", THEN conjunct2, THEN conjunct2,
       THEN conjunct1, rule_format, of ?denied ?data ?err, OF h])
  then show "getGeminiReview (\<lambda>req. Inr ?denied) (js ''prompt'') (js ''key'') =
     Inl (Error (js ''Failed to get AI review: Gemini API error: API key not valid''))"
    by (simp only: GeminiError.simps option.case e)
next
  let ?data = "\<lparr>candidates = Some [], error = None\<rparr>"
  let ?empty = "\<lparr>httpStatus = 200, statusText = js ''OK'', bodyText = Inr (js ''{}''),
                  bodyJson = Inr ?data\<rparr>"
  have e: "js ''Failed to get AI review: '' @ js ''No review content received from Gemini API'' =
        js ''Failed to get AI review: No review content received from Gemini API''"
    by (simp add: js_def)
  have h: "(\<lambda>req. Inr ?empty) (geminiRequest (js ''prompt'') (js ''key'')) = Inr ?empty \<and>
           ok ?empty \<and> bodyJson ?empty = Inr ?data \<and> error ?data = None \<and>
           (firstCandidateText ?data = None \<or> firstCandidateText ?data = Some [])"
    by (simp add: ok_def firstCandidateText_def index0_def)
  have "getGeminiReview (\<lambda>req. Inr ?empty) (js ''prompt'') (js ''key'') =
        Inl (Error (js ''Failed to get AI review: '' @
                    js ''No review content received from Gemini API''))"
    by (rule getGeminiReview_result
      [of "\<lambda>req. Inr ?empty" "js ''prompt''" "js ''key''" "[]", THEN conjunct2, THEN conjunct2,
       THEN conjunct2, rule_format, of ?empty ?data, OF h])
  then show "getGeminiReview (\<lambda>req. Inr ?empty) (js ''prompt'') (js ''key'') =
     Inl (Error (js ''Failed to get AI review: No review content received from Gemini API''))"
    by (simp only: e)
qed

section \<open>The orchestrator: what a run does\<close>

lemma shouldExcludeFile_log:
  "e \<in> set (snd (shouldExcludeFile name diff)) \<Longrightarrow> \<exists>m. e = Info m"
  by (auto simp: shouldExcludeFile_def split: if_splits option.splits)

lemma filterFiles_fst:
  "fst (filterFiles files) =
     filter (\<lambda>file. \<not> fst (shouldExcludeFile (filename file) (patch file))) files"
  by (induction files) (auto simp: split_def Let_def)

lemma filterFiles_log:
  "e \<in> set (snd (filterFiles files)) \<Longrightarrow> \<exists>m. e = Info m"
  by (induction files) (auto simp: split_def Let_def dest: shouldExcludeFile_log)

lemma filterFiles_log_filters:
  "filter isSetFailed (snd (filterFiles files)) = []"
  "filter isFetch (snd (filterFiles files)) = []"
  "filter isCreateComment (snd (filterFiles files)) = []"
  by (auto simp: filter_empty_conv dest: filterFiles_log)

lemma run_Fetch_path:
  assumes "Fetch req \<in> set (run env)"
  shows "\<exists>k t pr files.
           validateInputs env = Inr (k, t) \<and> pull_request env = Some pr \<and>
           listFiles env (repoOwner env) (repoName env) (number pr) = Inr files \<and>
           fst (filterFiles files) \<noteq> [] \<and>
           req = geminiRequest (createReviewPrompt (fst (filterFiles files)) (title pr) (body pr)) k"
  using assms
  by (auto simp: run_def run_try_def Let_def split_def
           split: sum.splits option.splits if_splits exn.splits dest: filterFiles_log)


lemma run_fails_at_gemini:
  assumes "validateInputs env = Inr (k, t)"
      and "pull_request env = Some pr"
      and "listFiles env (repoOwner env) (repoName env) (number pr) = Inr files"
      and "fst (filterFiles files) \<noteq> []"
      and "getGeminiReview (fetch env)
             (createReviewPrompt (fst (filterFiles files)) (title pr) (body pr)) k = Inl thrown"
  shows "filter isCreateComment (run env) = []"
    and "length (filter isSetFailed (run env)) = 1"
    and "isSetFailed (last (run env))"
  using assms
  by (simp_all add: run_def run_try_def Let_def split_def filterFiles_log_filters
        split: exn.splits)

text \<open>The concrete run, evaluated.\<close>

lemma scenario_names:
  "list_ex (\<lambda>pattern. test pattern (js ''src/index.ts'')) EXCLUDED_FILE_PATTERNS = False"
  "list_ex (\<lambda>pattern. test pattern (js ''yarn.lock'')) EXCLUDED_FILE_PATTERNS = True"
  "list_ex (\<lambda>pattern. test pattern (js ''src/util.ts'')) EXCLUDED_FILE_PATTERNS = False"
  "list_ex (\<lambda>pattern. test pattern (js ''data/fixtures.json'')) EXCLUDED_FILE_PATTERNS = False"
  "list_ex (\<lambda>pattern. test pattern (js ''README.md'')) EXCLUDED_FILE_PATTERNS = False"
  by code_simp+

lemma scenario_kept:
  "filter (\<lambda>file. \<not> fst (shouldExcludeFile (filename file) (patch file))) scenarioFiles =
    [\<lparr>filename = js ''src/index.ts'', patch = Some (js ''+const a = 1;''),
      status = js ''modified'', additions = 1, deletions = 0, changes = 1\<rparr>,
     \<lparr>filename = js ''src/util.ts'', patch = Some (js ''-old\<newline>+new''),
      status = js ''modified'', additions = 1, deletions = 1, changes = 2\<rparr>,
     \<lparr>filename = js ''README.md'', patch = Some (js ''+Docs''),
      status = js ''modified'', additions = 1, deletions = 0, changes = 1\<rparr>]"
  by (simp add: scenarioFiles_def shouldExcludeFile_def scenario_names MAX_FILE_SIZE_def)
     (simp add: js_def)

lemma scenario_inputs: "validateInputs scenarioEnv = Inr (js ''key'', js ''token'')"
  by (simp add: validateInputs_def scenarioEnv_def Let_def) (simp add: js_def)


lemma scenario_kept_length:
  "length (filter (\<lambda>file. \<not> fst (shouldExcludeFile (filename file) (patch file)))
             scenarioFiles) = 3"
  "sum_list (map changes (filter (\<lambda>file. \<not> fst (shouldExcludeFile (filename file)
             (patch file))) scenarioFiles)) = 4"
  "length scenarioFiles = 5"
  "filter (\<lambda>file. \<not> fst (shouldExcludeFile (filename file) (patch file))) scenarioFiles \<noteq> []"
  unfolding scenario_kept by (simp_all add: scenarioFiles_def)

lemma scenario_digits:
  "toString 2 = js ''2''" "toString 3 = js ''3''" "toString 4 = js ''4''"
  "toString 5 = js ''5''"
  by (simp_all add: toString.simps js_def)

text \<open>
  C7.  When the generative-text service is called and the body of its response carries
  an error field, the run fails: no comment-creation call is made, so nothing outside
  is modified, and the failure is reported exactly once, by the \<^verbatim>\<open>catch\<close> block of
  \<^verbatim>\<open>run\<close>, as the last thing the run does.
\<close>

theorem run_error_field_fails:
  assumes "Fetch req \<in> set (run env)"
      and "fetch env req = Inr response"
      and "bodyJson response = Inr data"
      and "error data = Some err"
  shows "filter isCreateComment (run env) = [] \<and>
         length (filter isSetFailed (run env)) = 1 \<and>
         isSetFailed (last (run env))"
proof -
  from run_Fetch_path [OF assms(1)] obtain k t pr files where
    path: "validateInputs env = Inr (k, t)" "pull_request env = Some pr"
      "listFiles env (repoOwner env) (repoName env) (number pr) = Inr files"
      "fst (filterFiles files) \<noteq> []"
    and req: "req = geminiRequest
                (createReviewPrompt (fst (filterFiles files)) (title pr) (body pr)) k"
    by blast
  from getGeminiReview_error_field [of "fetch env" _ k response data err] assms(2-4) req
  obtain m where "getGeminiReview (fetch env)
      (createReviewPrompt (fst (filterFiles files)) (title pr) (body pr)) k = Inl (Error m)"
    by blast
  from run_fails_at_gemini [OF path this] show ?thesis by simp
qed

theorem run_error_field_fails_witness:
  "Fetch (geminiRequest
            (createReviewPrompt
               (filter (\<lambda>file. \<not> fst (shouldExcludeFile (filename file) (patch file)))
                  scenarioFiles)
               (Some (js ''Refactor'')) None)
            (js ''key''))
     \<in> set (run (scenarioEnv\<lparr>fetch := \<lambda>request. Inr scenarioErrorResponse\<rparr>)) \<and>
   filter isCreateComment
     (run (scenarioEnv\<lparr>fetch := \<lambda>request. Inr scenarioErrorResponse\<rparr>)) = [] \<and>
   length (filter isSetFailed
     (run (scenarioEnv\<lparr>fetch := \<lambda>request. Inr scenarioErrorResponse\<rparr>))) = 1 \<and>
   isSetFailed (last (run (scenarioEnv\<lparr>fetch := \<lambda>request. Inr scenarioErrorResponse\<rparr>)))"
proof -
  let ?env = "scenarioEnv\<lparr>fetch := \<lambda>request. Inr scenarioErrorResponse\<rparr>"
  let ?kept = "filter (\<lambda>file. \<not> fst (shouldExcludeFile (filename file) (patch file)))
                 scenarioFiles"
  let ?req = "geminiRequest (createReviewPrompt ?kept (Some (js ''Refactor'')) None) (js ''key'')"
  let ?err = "\<lparr>message = Some (js ''API key not valid'')\<rparr>"
  let ?data = "\<lparr>candidates = None, error = Some ?err\<rparr>"
  have inputs: "validateInputs ?env = Inr (js ''key'', js ''token'')"
    by (simp add: validateInputs_def scenarioEnv_def Let_def) (simp add: js_def)
  have kept: "fst (filterFiles scenarioFiles) \<noteq> []"
    by (simp only: filterFiles_fst scenario_kept_length(4)) simp
  have h1: "Fetch ?req \<in> set (run ?env)"
    using inputs kept
    by (simp add: run_def run_try_def Let_def split_def scenarioEnv_def filterFiles_fst
          split: sum.splits exn.splits)
  have h2: "fetch ?env ?req = Inr scenarioErrorResponse"
    by simp
  have h3: "bodyJson scenarioErrorResponse = Inr ?data"
    by (simp add: scenarioErrorResponse_def)
  have h4: "error ?data = Some ?err"
    by simp
  from h1 run_error_field_fails [OF h1 h2 h3 h4] show ?thesis
    by simp
qed

text \<open>
  C8.  When the run reaches the generative-text service (the inputs are valid, the
  event is a pull request, the changed files are listed and at least one survives the
  filter) and the service answers with a success status, no error field and a
  non-empty text in the first part of its first candidate, exactly one comment is
  posted, on that pull request, and its body is the fixed header, the summary template
  filled with the number of reviewed files over the number of changed files, the sum
  of the \<^verbatim>\<open>changes\<close> of the reviewed files and the number of excluded files, and then
  the returned text.  For the five files of the scenario, of which a lock file and an
  oversized file are excluded, the summary reads \<^verbatim>\<open>Files reviewed: 3/5\<close> and
  \<^verbatim>\<open>Files excluded: 2\<close>.
\<close>

theorem run_posts_summary_and_review:
  assumes "validateInputs env = Inr (geminiKey, githubToken)"
      and "pull_request env = Some pr"
      and "listFiles env (repoOwner env) (repoName env) (number pr) = Inr files"
      and "filesToReview =
             filter (\<lambda>file. \<not> fst (shouldExcludeFile (filename file) (patch file))) files"
      and "filesToReview \<noteq> []"
      and "fetch env (geminiRequest (createReviewPrompt filesToReview (title pr) (body pr))
             geminiKey) = Inr response"
      and "ok response"
      and "bodyJson response = Inr data"
      and "error data = None"
      and "candidates data = Some (c # cs)"
      and "content c = Some cont"
      and "parts cont = Some (p # ps)"
      and "partText p = Some reviewText"
      and "reviewText \<noteq> []"
  shows "filter isCreateComment (run env) =
           [CreateComment (repoOwner env) (repoName env) (number pr)
              ([0xD83E, 0xDD16] @ js '' **AI Code Review**\<newline>\<newline>'' @
               js ''**'' @ [0xD83D, 0xDCCA] @ js '' Review Summary:**\<newline>'' @
               js ''- Files reviewed: '' @ toString (length filesToReview) @ js ''/'' @
                 toString (length files) @ js ''\<newline>'' @
               js ''- Total changes: '' @ toString (sum_list (map changes filesToReview)) @
                 js '' lines\<newline>'' @
               js ''- Files excluded: '' @ toString (length files - length filesToReview) @
                 js '' (large files, lock files, etc.)\<newline>'' @
               js ''\<newline>'' @
               reviewText)]"
proof -
  have kept: "fst (filterFiles files) = filesToReview"
    by (simp add: filterFiles_fst assms(4))
  have "firstCandidateText data = Some reviewText"
    unfolding firstCandidateText_Some_iff using assms(10-13) by blast
  with assms(6-9,14)
  have review: "getGeminiReview (fetch env)
      (createReviewPrompt filesToReview (title pr) (body pr)) geminiKey = Inr reviewText"
    unfolding getGeminiReview_Inr_iff getGeminiReview_try_Inr_iff by blast
  show ?thesis
  proof (cases "createComment env (repoOwner env) (repoName env) (number pr)
                  (commentBody (reviewSummary filesToReview files) reviewText)")
    case None
    with assms(1-3,5) kept review show ?thesis
      by (simp add: run_def run_try_def Let_def split_def filterFiles_log_filters
            commentBody_def reviewSummary_def foldl_changes)
  next
    case (Some thrown)
    with assms(1-3,5) kept review show ?thesis
      by (simp add: run_def run_try_def Let_def split_def filterFiles_log_filters
            commentBody_def reviewSummary_def foldl_changes)
  qed
qed

theorem run_posts_summary_and_review_witness:
  "filter isCreateComment (run scenarioEnv) =
     [CreateComment (js ''octo'') (js ''demo'') 7
        ([0xD83E, 0xDD16] @ js '' **AI Code Review**\<newline>\<newline>**'' @ [0xD83D, 0xDCCA] @
         js '' Review Summary:**\<newline>- Files reviewed: 3/5\<newline>- Total changes: 4 lines\<newline>- Files excluded: 2 (large files, lock files, etc.)\<newline>\<newline>Looks good.'')]"
proof -
  let ?kept = "filter (\<lambda>file. \<not> fst (shouldExcludeFile (filename file) (patch file)))
                 scenarioFiles"
  let ?pr = "\<lparr>number = 7, title = Some (js ''Refactor''), body = None\<rparr>"
  let ?part = "\<lparr>partText = Some (js ''Looks good.'')\<rparr>"
  let ?cont = "\<lparr>parts = Some [?part]\<rparr>"
  let ?cand = "\<lparr>content = Some ?cont\<rparr>"
  let ?data = "\<lparr>candidates = Some [?cand], error = None\<rparr>"
  have h2: "pull_request scenarioEnv = Some ?pr"
    by (simp add: scenarioEnv_def)
  have h3: "listFiles scenarioEnv (repoOwner scenarioEnv) (repoName scenarioEnv) (number ?pr) =
            Inr scenarioFiles"
    by (simp add: scenarioEnv_def)
  have h6: "fetch scenarioEnv (geminiRequest (createReviewPrompt ?kept (title ?pr) (body ?pr))
              (js ''key'')) = Inr scenarioResponse"
    by (simp add: scenarioEnv_def)
  have h7: "ok scenarioResponse"
    by (simp add: ok_def scenarioResponse_def)
  have h8: "bodyJson scenarioResponse = Inr ?data"
    by (simp add: scenarioResponse_def)
  have h9: "error ?data = None" "candidates ?data = Some (?cand # [])"
    "content ?cand = Some ?cont" "parts ?cont = Some (?part # [])"
    "partText ?part = Some (js ''Looks good.'')"
    by simp_all
  have h14: "js ''Looks good.'' \<noteq> []"
    by (simp add: js_def)
  have e: "[0xD83E, 0xDD16] @ js '' **AI Code Review**\<newline>\<newline>'' @
           js ''**'' @ [0xD83D, 0xDCCA] @ js '' Review Summary:**\<newline>'' @
           js ''- Files reviewed: '' @ js ''3'' @ js ''/'' @ js ''5'' @ js ''\<newline>'' @
           js ''- Total changes: '' @ js ''4'' @ js '' lines\<newline>'' @
           js ''- Files excluded: '' @ js ''2'' @
           js '' (large files, lock files, etc.)\<newline>'' @ js ''\<newline>'' @
           js ''Looks good.'' =
           [0xD83E, 0xDD16] @ js '' **AI Code Review**\<newline>\<newline>**'' @ [0xD83D, 0xDCCA] @
           js '' Review Summary:**\<newline>- Files reviewed: 3/5\<newline>- Total changes: 4 lines\<newline>- Files excluded: 2 (large files, lock files, etc.)\<newline>\<newline>Looks good.''"
    by (simp add: js_def)
  have d: "(5::nat) - 3 = 2" by simp
  have r: "repoOwner scenarioEnv = js ''octo''" "repoName scenarioEnv = js ''demo''"
    "number ?pr = 7"
    by (simp_all add: scenarioEnv_def)
  from run_posts_summary_and_review
    [OF scenario_inputs h2 h3 refl scenario_kept_length(4) h6 h7 h8 h9 h14]
  show ?thesis
    unfolding scenario_kept_length(1-3) d scenario_digits e r .
qed

text \<open>
  C10.  When the filter excludes every changed file of the pull request, the run ends
  without failure after the log line that says so: the generative-text service is not
  called and no comment is posted.
\<close>

theorem run_all_excluded:
  assumes "validateInputs env = Inr (geminiKey, githubToken)"
      and "pull_request env = Some pr"
      and "listFiles env (repoOwner env) (repoName env) (number pr) = Inr files"
      and "\<forall>file \<in> set files. fst (shouldExcludeFile (filename file) (patch file))"
  shows "filter isFetch (run env) = [] \<and>
         filter isCreateComment (run env) = [] \<and>
         filter isSetFailed (run env) = [] \<and>
         last (run env) =
           Info ([0x2139, 0xFE0F] @ js '' No files to review (all files were filtered out)'')"
proof -
  from assms(4) have "fst (filterFiles files) = []"
    by (simp add: filterFiles_fst filter_empty_conv)
  with assms(1-3) show ?thesis
    by (simp add: run_def run_try_def Let_def split_def filterFiles_log_filters)
qed

theorem run_all_excluded_witness:
  "fst (shouldExcludeFile (js ''yarn.lock'') (Some (js ''+lodash@4.17.21:''))) \<and>
   fst (shouldExcludeFile (js ''data/fixtures.json'') (Some (replicate 50001 0x61))) \<and>
   filter isFetch (run (scenarioEnv\<lparr>listFiles := \<lambda>owner repo prNumber. Inr
     [\<lparr>filename = js ''yarn.lock'', patch = Some (js ''+lodash@4.17.21:''),
       status = js ''modified'', additions = 1, deletions = 0, changes = 1\<rparr>,
      \<lparr>filename = js ''data/fixtures.json'', patch = Some (replicate 50001 0x61),
       status = js ''added'', additions = 1, deletions = 0, changes = 1\<rparr>]\<rparr>)) = [] \<and>
   filter isCreateComment (run (scenarioEnv\<lparr>listFiles := \<lambda>owner repo prNumber. Inr
     [\<lparr>filename = js ''yarn.lock'', patch = Some (js ''+lodash@4.17.21:''),
       status = js ''modified'', additions = 1, deletions = 0, changes = 1\<rparr>,
      \<lparr>filename = js ''data/fixtures.json'', patch = Some (replicate 50001 0x61),
       status = js ''added'', additions = 1, deletions = 0, changes = 1\<rparr>]\<rparr>)) = [] \<and>
   filter isSetFailed (run (scenarioEnv\<lparr>listFiles := \<lambda>owner repo prNumber. Inr
     [\<lparr>filename = js ''yarn.lock'', patch = Some (js ''+lodash@4.17.21:''),
       status = js ''modified'', additions = 1, deletions = 0, changes = 1\<rparr>,
      \<lparr>filename = js ''data/fixtures.json'', patch = Some (replicate 50001 0x61),
       status = js ''added'', additions = 1, deletions = 0, changes = 1\<rparr>]\<rparr>)) = []"
proof -
  let ?files = "[\<lparr>filename = js ''yarn.lock'', patch = Some (js ''+lodash@4.17.21:''),
                  status = js ''modified'', additions = 1, deletions = 0, changes = 1\<rparr>,
                 \<lparr>filename = js ''data/fixtures.json'', patch = Some (replicate 50001 0x61),
                  status = js ''added'', additions = 1, deletions = 0, changes = 1\<rparr>]"
  let ?env = "scenarioEnv\<lparr>listFiles := \<lambda>owner repo prNumber. Inr ?files\<rparr>"
  let ?pr = "\<lparr>number = 7, title = Some (js ''Refactor''), body = None\<rparr>"
  have h1: "validateInputs ?env = Inr (js ''key'', js ''token'')"
    by (simp add: validateInputs_def scenarioEnv_def Let_def) (simp add: js_def)
  have h2: "pull_request ?env = Some ?pr"
    by (simp add: scenarioEnv_def)
  have h3: "listFiles ?env (repoOwner ?env) (repoName ?env) (number ?pr) = Inr ?files"
    by simp
  have h4: "\<forall>file \<in> set ?files. fst (shouldExcludeFile (filename file) (patch file))"
    by (simp add: shouldExcludeFile_def scenario_names MAX_FILE_SIZE_def)
  from h4 run_all_excluded [OF h1 h2 h3 h4] show ?thesis
    by simp
qed

end
